theory Spec2Isabelle
  imports Complex_Main "HOL-Library.Multiset" "HOL-Library.Log_Nat"
begin

section \<open>Entity schema\<close>

text \<open>
  The store keeps five tables: products, customers, sales, supplies and inventory
  checks. \<^verbatim>\<open>db_manager.py\<close> imports the entity classes from
  \<^verbatim>\<open>database/models.py\<close>, which is not part of the sources at hand, so the
  records below carry exactly the attributes that \<^verbatim>\<open>db_manager.py\<close> and
  \<^verbatim>\<open>main.py\<close> read and write. Integer columns are Python integers
  (\<^typ>\<open>int\<close>); prices, costs, discounts and totals are Python floats, each given
  by the rational number it denotes; an instant of \<^verbatim>\<open>datetime.now()\<close> is an
  abstract number handed to the operation. No constraint of the storage beyond what
  \<^verbatim>\<open>db_manager.py\<close> checks itself is assumed.
\<close>

text \<open>The members of \<^verbatim>\<open>ProductCategory\<close>, as \<^verbatim>\<open>main.py\<close> names them.\<close>

datatype ProductCategory = ELECTRONICS | CLOTHING | FOOD | BOOKS | OTHER

type_synonym datetime = nat

record Product =
  product_id :: int
  product_name :: string
  product_category :: ProductCategory
  product_price :: rat
  product_quantity :: int
  product_min_stock :: int
  product_barcode :: "string option"
  product_description :: "string option"

record Customer =
  customer_id :: int
  customer_name :: string
  customer_phone :: "string option"
  customer_email :: "string option"
  customer_discount :: rat
  customer_total_purchases :: rat

record Sale =
  sale_id :: int
  sale_product_id :: int
  sale_customer_id :: "int option"
  sale_quantity :: int
  sale_price :: rat
  sale_total :: rat
  sale_date :: datetime

record Supply =
  supply_id :: int
  supply_supplier :: string
  supply_product_id :: int
  supply_quantity :: int
  supply_cost :: rat
  supply_date :: datetime

text \<open>
  Modelled from the spec: the \<^verbatim>\<open>InventoryCheck\<close> class is declared in the absent
  \<^verbatim>\<open>models.py\<close>; \<^verbatim>\<open>db_manager.py\<close> reads only its \<^verbatim>\<open>product_id\<close>.
\<close>

record InventoryCheck =
  inventory_check_id :: int
  inventory_check_product_id :: int

text \<open>
  A table is the list of its rows in storage order. The state of the store is the
  content of the five tables.
\<close>

record database =
  products :: "Product list"
  customers :: "Customer list"
  sales :: "Sale list"
  supplies :: "Supply list"
  inventory_checks :: "InventoryCheck list"

section \<open>Floating-point arithmetic\<close>

text \<open>
  A Python float is a binary64 number. An arithmetic operation on floats returns the
  exact result rounded to the nearest binary64 number, ties to the even significand:
  53 significant bits, exponents from \<open>- 1074\<close> upwards (which covers the subnormal
  numbers). An integer operand is converted to a float first, with the same rounding.
  Infinities and NaN, that is results of magnitude \<open>2 ^ 1024\<close> and more, have no
  counterpart here.
\<close>

definition round_half_even :: "rat \<Rightarrow> int" where
  "round_half_even x =
     (let f = \<lfloor>x\<rfloor>; d = x - of_int f
      in if d < 1 / 2 then f else if 1 / 2 < d then f + 1 else if even f then f else f + 1)"

definition pow2 :: "int \<Rightarrow> rat" where
  "pow2 e = (if 0 \<le> e then 2 ^ nat e else 1 / 2 ^ nat (- e))"

text \<open>The largest \<open>k\<close> with \<open>2 ^ k \<le> \<bar>x\<bar>\<close>, for \<open>x \<noteq> 0\<close>.\<close>

definition ilog2 :: "rat \<Rightarrow> int" where
  "ilog2 x =
     (let k = bitlen (fst (quotient_of \<bar>x\<bar>)) - bitlen (snd (quotient_of \<bar>x\<bar>))
      in if pow2 k \<le> \<bar>x\<bar> then k else k - 1)"

definition binary64 :: "rat \<Rightarrow> rat" where
  "binary64 x =
     (if x = 0 then 0
      else let e = max (ilog2 x - 52) (- 1074)
           in of_int (round_half_even (x / pow2 e)) * pow2 e)"

definition float_of_int :: "int \<Rightarrow> rat" where
  "float_of_int n = binary64 (of_int n)"

definition fadd :: "rat \<Rightarrow> rat \<Rightarrow> rat" where
  "fadd a b = binary64 (a + b)"

definition fsub :: "rat \<Rightarrow> rat \<Rightarrow> rat" where
  "fsub a b = binary64 (a - b)"

definition fmul :: "rat \<Rightarrow> rat \<Rightarrow> rat" where
  "fmul a b = binary64 (a * b)"

definition fdiv :: "rat \<Rightarrow> rat \<Rightarrow> rat" where
  "fdiv a b = binary64 (a / b)"

section \<open>Sessions\<close>

text \<open>
  Every mutating method of \<^verbatim>\<open>DatabaseManager\<close> has the shape
  \<^verbatim>\<open>try: ... session.commit(); return r  except Exception as e: session.rollback(); raise e\<close>.
  A call either returns a value or re-raises what the storage raised, after rolling the
  session back. The argument \<open>fail\<close> of an operation names the storage access of the
  call that raises, counted from 0 in the order of the source (\<open>None\<close>: the storage
  raises nowhere). A rollback gives back the store as it was when the session opened.
\<close>

datatype 'a outcome = Returned 'a | Raised

text \<open>\<^verbatim>\<open>session.query(Product).get(product_id)\<close>: the row with that primary key, if any.\<close>

definition get_product_by_id :: "database \<Rightarrow> int \<Rightarrow> Product option" where
  "get_product_by_id db pid = find (\<lambda>p. product_id p = pid) (products db)"

definition get_customer_by_id :: "database \<Rightarrow> int \<Rightarrow> Customer option" where
  "get_customer_by_id db cid = find (\<lambda>c. customer_id c = cid) (customers db)"

text \<open>
  An attribute assignment on the object that \<^verbatim>\<open>get\<close> returned becomes, at the
  commit, \<^verbatim>\<open>UPDATE ... SET attribute = value WHERE id = key\<close>: the value is computed
  from the loaded object and written to the row with its primary key.
\<close>

definition update_row :: "('a \<Rightarrow> bool) \<Rightarrow> ('a \<Rightarrow> 'a) \<Rightarrow> 'a list \<Rightarrow> 'a list" where
  "update_row P f rows = map (\<lambda>x. if P x then f x else x) rows"

text \<open>The primary key the storage gives a new row: one more than the largest in use.\<close>

definition new_id :: "int list \<Rightarrow> int" where
  "new_id ids = foldr max ids 0 + 1"

section \<open>Sale transaction\<close>

text \<open>
  \<^verbatim>\<open>record_sale(product_id, quantity, customer_id=None)\<close>. Storage accesses: 0 the
  product lookup, 1 the customer lookup (made only when \<^verbatim>\<open>customer_id\<close> is truthy,
  that is neither \<^verbatim>\<open>None\<close> nor 0), 2 the commit, 3 the refresh of the committed
  sale. The method returns \<^verbatim>\<open>None\<close> when the product is absent or its stock is
  below the requested quantity. The total is computed in floats:
  \<^verbatim>\<open>product.price * quantity\<close> converts the integer quantity and multiplies, and
  \<^verbatim>\<open>total * (1 - customer.discount / 100)\<close> divides, subtracts and multiplies in
  that order (the integers 1 and 100 are floats exactly).
\<close>

definition lookup_customer :: "database \<Rightarrow> int option \<Rightarrow> Customer option" where
  "lookup_customer db customer_id_arg =
     (case customer_id_arg of
        None \<Rightarrow> None
      | Some cid \<Rightarrow> if cid = 0 then None else get_customer_by_id db cid)"

definition sale_total_for :: "Product \<Rightarrow> int \<Rightarrow> Customer option \<Rightarrow> rat" where
  "sale_total_for product quantity customer =
     (let total = fmul (product_price product) (float_of_int quantity)
      in case customer of
           None \<Rightarrow> total
         | Some c \<Rightarrow>
             if customer_discount c > 0
             then fmul total (fsub 1 (fdiv (customer_discount c) 100))
             else total)"

definition record_sale ::
  "nat option \<Rightarrow> datetime \<Rightarrow> database \<Rightarrow> int \<Rightarrow> int \<Rightarrow> int option
     \<Rightarrow> Sale option outcome \<times> database" where
  "record_sale fail now db pid quantity customer_id_arg =
     (if fail = Some 0 then (Raised, db)
      else case get_product_by_id db pid of
        None \<Rightarrow> (Returned None, db)
      | Some product \<Rightarrow>
          if product_quantity product < quantity then (Returned None, db)
          else if customer_id_arg \<noteq> None \<and> customer_id_arg \<noteq> Some 0 \<and> fail = Some 1
          then (Raised, db)
          else
            let customer = lookup_customer db customer_id_arg;
                total = sale_total_for product quantity customer;
                sale = \<lparr>sale_id = new_id (map sale_id (sales db)),
                        sale_product_id = pid,
                        sale_customer_id = customer_id_arg,
                        sale_quantity = quantity,
                        sale_price = product_price product,
                        sale_total = total,
                        sale_date = now\<rparr>;
                db1 = db\<lparr>products :=
                        update_row (\<lambda>p. product_id p = pid)
                          (\<lambda>p. p\<lparr>product_quantity := product_quantity product - quantity\<rparr>)
                          (products db)\<rparr>;
                db2 = (case customer of
                         None \<Rightarrow> db1
                       | Some c \<Rightarrow>
                           db1\<lparr>customers :=
                             update_row (\<lambda>x. customer_id x = customer_id c)
                               (\<lambda>x. x\<lparr>customer_total_purchases :=
                                         fadd (customer_total_purchases c) total\<rparr>)
                               (customers db1)\<rparr>);
                db3 = db2\<lparr>sales := sales db2 @ [sale]\<rparr>
            in if fail = Some 2 then (Raised, db)
               else if fail = Some 3 then (Raised, db3)
               else (Returned (Some sale), db3))"


section \<open>Repository\<close>

text \<open>
  \<^verbatim>\<open>update_product_quantity(product_id, quantity_change)\<close>. Storage accesses: 0 the
  product lookup, 1 the commit.
\<close>

definition update_product_quantity ::
  "nat option \<Rightarrow> database \<Rightarrow> int \<Rightarrow> int \<Rightarrow> Product option outcome \<times> database" where
  "update_product_quantity fail db pid quantity_change =
     (if fail = Some 0 then (Raised, db)
      else case get_product_by_id db pid of
        None \<Rightarrow> (Returned None, db)
      | Some product \<Rightarrow>
          let db1 = db\<lparr>products :=
                      update_row (\<lambda>p. product_id p = pid)
                        (\<lambda>p. p\<lparr>product_quantity := product_quantity product + quantity_change\<rparr>)
                        (products db)\<rparr>
          in if fail = Some 1 then (Raised, db)
             else (Returned
                     (Some (product\<lparr>product_quantity :=
                              product_quantity product + quantity_change\<rparr>)), db1))"

text \<open>
  \<^verbatim>\<open>update_product(product_id, name=None, ..., description=None)\<close>: an argument
  that is not \<^verbatim>\<open>None\<close> overwrites its attribute, in the order of the source.
\<close>

definition assign_fields ::
  "string option \<Rightarrow> ProductCategory option \<Rightarrow> rat option \<Rightarrow> int option \<Rightarrow> int option
     \<Rightarrow> string option \<Rightarrow> string option \<Rightarrow> Product \<Rightarrow> Product" where
  "assign_fields name category price quantity min_stock barcode description product =
     (let p1 = (case name of None \<Rightarrow> product | Some v \<Rightarrow> product\<lparr>product_name := v\<rparr>);
          p2 = (case category of None \<Rightarrow> p1 | Some v \<Rightarrow> p1\<lparr>product_category := v\<rparr>);
          p3 = (case price of None \<Rightarrow> p2 | Some v \<Rightarrow> p2\<lparr>product_price := v\<rparr>);
          p4 = (case quantity of None \<Rightarrow> p3 | Some v \<Rightarrow> p3\<lparr>product_quantity := v\<rparr>);
          p5 = (case min_stock of None \<Rightarrow> p4 | Some v \<Rightarrow> p4\<lparr>product_min_stock := v\<rparr>);
          p6 = (case barcode of None \<Rightarrow> p5 | Some v \<Rightarrow> p5\<lparr>product_barcode := Some v\<rparr>)
      in case description of None \<Rightarrow> p6 | Some v \<Rightarrow> p6\<lparr>product_description := Some v\<rparr>)"

definition update_product ::
  "nat option \<Rightarrow> database \<Rightarrow> int \<Rightarrow> string option \<Rightarrow> ProductCategory option \<Rightarrow> rat option
     \<Rightarrow> int option \<Rightarrow> int option \<Rightarrow> string option \<Rightarrow> string option
     \<Rightarrow> Product option outcome \<times> database" where
  "update_product fail db pid name category price quantity min_stock barcode description =
     (if fail = Some 0 then (Raised, db)
      else case get_product_by_id db pid of
        None \<Rightarrow> (Returned None, db)
      | Some product \<Rightarrow>
          let db1 = db\<lparr>products :=
                      update_row (\<lambda>p. product_id p = pid)
                        (assign_fields name category price quantity min_stock barcode
                           description)
                        (products db)\<rparr>
          in if fail = Some 1 then (Raised, db)
             else (Returned
                     (Some (assign_fields name category price quantity min_stock barcode
                              description product)), db1))"

section \<open>Supply transaction\<close>

text \<open>
  \<^verbatim>\<open>add_supply(supplier, product_id, quantity, cost)\<close>. The supply object is built
  first; the product is looked up (access 0) and its quantity raised only
  \<^verbatim>\<open>if product:\<close>; the supply is added to the session in either case; then the
  commit (access 1) and the refresh of the committed supply (access 2).
\<close>

definition add_supply ::
  "nat option \<Rightarrow> datetime \<Rightarrow> database \<Rightarrow> string \<Rightarrow> int \<Rightarrow> int \<Rightarrow> rat
     \<Rightarrow> Supply outcome \<times> database" where
  "add_supply fail now db supplier pid quantity cost =
     (let supply = \<lparr>supply_id = new_id (map supply_id (supplies db)),
                     supply_supplier = supplier,
                     supply_product_id = pid,
                     supply_quantity = quantity,
                     supply_cost = cost,
                     supply_date = now\<rparr>
      in if fail = Some 0 then (Raised, db)
         else
           let db1 = (case get_product_by_id db pid of
                        None \<Rightarrow> db
                      | Some product \<Rightarrow>
                          db\<lparr>products :=
                            update_row (\<lambda>p. product_id p = pid)
                              (\<lambda>p. p\<lparr>product_quantity := product_quantity product + quantity\<rparr>)
                              (products db)\<rparr>);
               db2 = db1\<lparr>supplies := supplies db1 @ [supply]\<rparr>
           in if fail = Some 1 then (Raised, db)
              else if fail = Some 2 then (Raised, db2)
              else (Returned supply, db2))"

text \<open>
  The handler \<^verbatim>\<open>add_supply\<close> of the application class in \<^verbatim>\<open>main.py\<close>, the one
  caller of the operation above. It reads the supplier text, the product chosen in the
  combo box (\<^verbatim>\<open>None\<close> when none is chosen), the quantity and the cost from the form,
  and shows one message. \<^verbatim>\<open>str.strip()\<close> removes the white space at both ends
  (characters are taken as code points below 256).
\<close>

definition isspace :: "char \<Rightarrow> bool" where
  "isspace c = (let n = (of_char c :: nat)
                in (9 \<le> n \<and> n \<le> 13) \<or> (28 \<le> n \<and> n \<le> 32) \<or> n = 133 \<or> n = 160)"

definition strip :: "string \<Rightarrow> string" where
  "strip s = rev (dropWhile isspace (rev (dropWhile isspace s)))"

datatype message =
    Enter_supplier
  | Select_product
  | Quantity_must_be_positive
  | Cost_must_not_be_negative
  | Supply_added
  | Supply_error

definition handle_add_supply ::
  "nat option \<Rightarrow> datetime \<Rightarrow> database \<Rightarrow> string \<Rightarrow> int option \<Rightarrow> int \<Rightarrow> rat
     \<Rightarrow> message \<times> database" where
  "handle_add_supply fail now db supplier_text current_data quantity cost =
     (let supplier = strip supplier_text
      in if supplier = [] then (Enter_supplier, db)
         else case current_data of
           None \<Rightarrow> (Select_product, db)
         | Some pid \<Rightarrow>
             if quantity \<le> 0 then (Quantity_must_be_positive, db)
             else if cost < 0 then (Cost_must_not_be_negative, db)
             else (case add_supply fail now db supplier pid quantity cost of
                     (Returned supply, db') \<Rightarrow> (Supply_added, db')
                   | (Raised, db') \<Rightarrow> (Supply_error, db')))"

section \<open>Cascade delete\<close>

text \<open>
  \<^verbatim>\<open>delete_product(product_id)\<close>. Storage accesses: 0 the product lookup, 1 the query
  for the product's sales, 2 the query for its supplies, 3 the query for its inventory
  checks, 4 the commit. The rows marked with \<^verbatim>\<open>session.delete\<close> leave the store at
  the commit; \<open>db1\<close> to \<open>db4\<close> are the session's pending states.
\<close>

definition delete_product :: "nat option \<Rightarrow> database \<Rightarrow> int \<Rightarrow> bool outcome \<times> database" where
  "delete_product fail db pid =
     (if fail = Some 0 then (Raised, db)
      else case get_product_by_id db pid of
        None \<Rightarrow> (Returned False, db)
      | Some product \<Rightarrow>
          if fail = Some 1 then (Raised, db)
          else
            let db1 = db\<lparr>sales := filter (\<lambda>s. sale_product_id s \<noteq> pid) (sales db)\<rparr>
            in if fail = Some 2 then (Raised, db)
               else
                 let db2 = db1\<lparr>supplies :=
                             filter (\<lambda>s. supply_product_id s \<noteq> pid) (supplies db1)\<rparr>
                 in if fail = Some 3 then (Raised, db)
                    else
                      let db3 = db2\<lparr>inventory_checks :=
                                  filter (\<lambda>c. inventory_check_product_id c \<noteq> pid)
                                    (inventory_checks db2)\<rparr>;
                          db4 = db3\<lparr>products :=
                                  filter (\<lambda>p. product_id p \<noteq> pid) (products db3)\<rparr>
                      in if fail = Some 4 then (Raised, db)
                         else (Returned True, db4))"

section \<open>Queries\<close>

text \<open>
  The read-only methods have no handler of their own (\<^verbatim>\<open>try: return ... finally:
  session.close()\<close>); they are given as functions of the store.
\<close>

definition get_low_stock_products :: "database \<Rightarrow> Product list" where
  "get_low_stock_products db =
     filter (\<lambda>p. product_quantity p < product_min_stock p) (products db)"

text \<open>
  \<^verbatim>\<open>get_best_selling_products(limit)\<close> is the query
  \<^verbatim>\<open>query(Product, sum(Sale.quantity) as total_sold).join(Sale).group_by(Product.id)
  .order_by(desc('total_sold')).limit(limit)\<close>. The join pairs a product with each sale
  whose \<^verbatim>\<open>product_id\<close> is the product's id, so a group exists for a product exactly
  when it has a sale. \<^verbatim>\<open>ORDER BY\<close> has the one key \<^verbatim>\<open>total_sold\<close>: the order of
  rows with equal keys is the storage engine's. The parameter \<open>scan\<close> is the order
  in which the engine produces the groups; the sort is stable, so every arrangement of
  equal keys is the result for some \<open>scan\<close>. The limit is whatever integer the
  caller passes: SQLite, the engine of the store (\<^verbatim>\<open>sqlite:///store.db\<close>), puts no
  bound on the rows when the number after \<^verbatim>\<open>LIMIT\<close> is negative.
\<close>

definition total_sold :: "database \<Rightarrow> Product \<Rightarrow> int" where
  "total_sold db p =
     sum_list (map sale_quantity (filter (\<lambda>s. sale_product_id s = product_id p) (sales db)))"

definition joined_groups :: "database \<Rightarrow> (Product \<times> int) list" where
  "joined_groups db =
     map (\<lambda>p. (p, total_sold db p))
       (filter (\<lambda>p. filter (\<lambda>s. sale_product_id s = product_id p) (sales db) \<noteq> [])
          (products db))"

definition order_by_desc :: "(Product \<times> int) list \<Rightarrow> (Product \<times> int) list" where
  "order_by_desc rows = sort_key (\<lambda>r. - snd r) rows"

definition get_best_selling_products ::
  "((Product \<times> int) list \<Rightarrow> (Product \<times> int) list) \<Rightarrow> database \<Rightarrow> int
     \<Rightarrow> (Product \<times> int) list" where
  "get_best_selling_products scan db limit =
     (let rows = order_by_desc (scan (joined_groups db))
      in if limit < 0 then rows else take (nat limit) rows)"

section \<open>Example stores\<close>

definition widget :: Product where
  "widget = \<lparr>product_id = 1, product_name = ''Widget'', product_category = OTHER,
     product_price = 10, product_quantity = 5, product_min_stock = 2,
     product_barcode = None, product_description = None\<rparr>"

definition shop :: database where
  "shop = \<lparr>products = [widget], customers = [], sales = [], supplies = [],
     inventory_checks = []\<rparr>"

definition alice :: Customer where
  "alice = \<lparr>customer_id = 1, customer_name = ''Alice'', customer_phone = Some ''555'',
     customer_email = None, customer_discount = 10, customer_total_purchases = 0\<rparr>"

definition gadget :: Product where
  "gadget = \<lparr>product_id = 2, product_name = ''Gadget'', product_category = ELECTRONICS,
     product_price = 4, product_quantity = 0, product_min_stock = 3,
     product_barcode = None, product_description = None\<rparr>"

definition sale1 :: Sale where
  "sale1 = \<lparr>sale_id = 1, sale_product_id = 1, sale_customer_id = None, sale_quantity = 1,
     sale_price = 10, sale_total = 10, sale_date = 0\<rparr>"

definition sale2 :: Sale where
  "sale2 = \<lparr>sale_id = 2, sale_product_id = 2, sale_customer_id = None, sale_quantity = 1,
     sale_price = 4, sale_total = 4, sale_date = 1\<rparr>"

definition supply1 :: Supply where
  "supply1 = \<lparr>supply_id = 1, supply_supplier = ''Acme'', supply_product_id = 1,
     supply_quantity = 20, supply_cost = 50, supply_date = 0\<rparr>"

definition market :: database where
  "market = \<lparr>products = [widget, gadget], customers = [alice], sales = [sale1, sale2],
     supplies = [supply1], inventory_checks = []\<rparr>"

definition sale3 :: Sale where
  "sale3 = \<lparr>sale_id = 3, sale_product_id = 2, sale_customer_id = None, sale_quantity = 5,
     sale_price = 4, sale_total = 20, sale_date = 2\<rparr>"

definition bazaar :: database where
  "bazaar = \<lparr>products = [widget, gadget], customers = [], sales = [sale1, sale2, sale3],
     supplies = [], inventory_checks = []\<rparr>"

definition kiosk :: database where
  "kiosk = \<lparr>products = [widget, gadget], customers = [], sales = [sale1],
     supplies = [], inventory_checks = []\<rparr>"

definition bob :: Customer where
  "bob = \<lparr>customer_id = 2, customer_name = ''Bob'', customer_phone = Some ''556'',
     customer_email = None, customer_discount = - 10, customer_total_purchases = 0\<rparr>"

definition carol :: Customer where
  "carol = \<lparr>customer_id = 3, customer_name = ''Carol'', customer_phone = Some ''557'',
     customer_email = None, customer_discount = 7, customer_total_purchases = 0\<rparr>"

definition boutique :: database where
  "boutique = \<lparr>products = [widget], customers = [bob, carol], sales = [], supplies = [],
     inventory_checks = []\<rparr>"

section \<open>Auxiliary facts\<close>

subsection \<open>Floats at the example values\<close>

lemma float_10_times_1: "fmul 10 (float_of_int 1) = 10"
  by code_simp

lemma float_10_times_2: "fmul 10 (float_of_int 2) = 20"
  by code_simp

lemma float_10_times_3: "fmul 10 (float_of_int 3) = 30"
  by code_simp

lemma float_discount_10: "fmul 20 (fsub 1 (fdiv 10 100)) = 18"
  by code_simp

lemma float_discount_minus_10: "fmul 20 (fsub 1 (fdiv (- 10) 100)) = 22"
  by code_simp

lemma float_discount_7:
  "fmul 10 (fsub 1 (fdiv 7 100)) = 5235434566818201 / 562949953421312"
  by code_simp

subsection \<open>Lookups and row updates\<close>

lemma find_update_row:
  "(\<And>x. P (f x) = P x) \<Longrightarrow> find P (update_row P f rows) = map_option f (find P rows)"
  by (induction rows) (simp_all add: update_row_def)

lemma set_update_row:
  "set (update_row P f rows) = (\<lambda>x. if P x then f x else x) ` set rows"
  by (simp add: update_row_def)

lemma find_map_row:
  "(\<And>x. Q (g x) = Q x) \<Longrightarrow> find Q (map g rows) = map_option g (find Q rows)"
  by (induction rows) simp_all

lemma get_product_after_update:
  assumes "get_product_by_id db pid = Some product"
  shows "find (\<lambda>p. product_id p = pid)
           (update_row (\<lambda>p. product_id p = pid) (\<lambda>p. p\<lparr>product_quantity := v\<rparr>) (products db))
         = Some (product\<lparr>product_quantity := v\<rparr>)"
proof -
  have "find (\<lambda>p. product_id p = pid)
           (update_row (\<lambda>p. product_id p = pid) (\<lambda>p. p\<lparr>product_quantity := v\<rparr>) (products db))
        = map_option (\<lambda>p. p\<lparr>product_quantity := v\<rparr>) (find (\<lambda>p. product_id p = pid) (products db))"
    by (rule find_update_row) simp
  with assms show ?thesis by (simp add: get_product_by_id_def)
qed

lemma get_product_by_id_in: "get_product_by_id db pid = Some p \<Longrightarrow> p \<in> set (products db)"
  by (auto simp: get_product_by_id_def find_Some_iff)

lemma get_product_by_id_id: "get_product_by_id db i = Some a \<Longrightarrow> product_id a = i"
  by (auto simp: get_product_by_id_def find_Some_iff)

subsection \<open>The product table after an operation\<close>

lemma record_sale_products:
  "products (snd (record_sale fail now db pid quantity cid)) = products db
   \<or> (\<exists>product. get_product_by_id db pid = Some product \<and> quantity \<le> product_quantity product
        \<and> products (snd (record_sale fail now db pid quantity cid))
          = update_row (\<lambda>p. product_id p = pid)
              (\<lambda>p. p\<lparr>product_quantity := product_quantity product - quantity\<rparr>) (products db))"
  by (auto simp: record_sale_def Let_def split: option.splits)

lemma add_supply_products:
  "products (snd (add_supply fail now db supplier pid quantity cost)) = products db
   \<or> (\<exists>product. get_product_by_id db pid = Some product
        \<and> products (snd (add_supply fail now db supplier pid quantity cost))
          = update_row (\<lambda>p. product_id p = pid)
              (\<lambda>p. p\<lparr>product_quantity := product_quantity product + quantity\<rparr>) (products db))"
  by (auto simp: add_supply_def Let_def split: option.splits)

lemma update_product_quantity_products:
  "products (snd (update_product_quantity fail db pid delta)) = products db
   \<or> (\<exists>product. get_product_by_id db pid = Some product
        \<and> products (snd (update_product_quantity fail db pid delta))
          = update_row (\<lambda>p. product_id p = pid)
              (\<lambda>p. p\<lparr>product_quantity := product_quantity product + delta\<rparr>) (products db))"
  by (auto simp: update_product_quantity_def Let_def split: option.splits)

lemma update_product_products:
  "products (snd (update_product fail db pid n c pr q m b d)) = products db
   \<or> products (snd (update_product fail db pid n c pr q m b d))
          = update_row (\<lambda>p. product_id p = pid) (assign_fields n c pr q m b d) (products db)"
  by (auto simp: update_product_def Let_def split: option.splits)

lemma assign_fields_quantity:
  "product_quantity (assign_fields n c pr q m b d p) = (case q of None \<Rightarrow> product_quantity p | Some v \<Rightarrow> v)"
  by (simp add: assign_fields_def Let_def split: option.splits)

lemma add_supply_stock_mono:
  assumes q: "0 \<le> quantity" and a: "get_product_by_id db i = Some a"
  shows "\<exists>b. get_product_by_id (snd (add_supply fail now db supplier pid quantity cost)) i = Some b
            \<and> product_quantity a \<le> product_quantity b"
proof -
  let ?db' = "snd (add_supply fail now db supplier pid quantity cost)"
  from add_supply_products [of fail now db supplier pid quantity cost]
  consider (same) "products ?db' = products db"
    | (upd) product where "get_product_by_id db pid = Some product"
        "products ?db' = update_row (\<lambda>p. product_id p = pid)
              (\<lambda>p. p\<lparr>product_quantity := product_quantity product + quantity\<rparr>) (products db)"
    by blast
  then show ?thesis
  proof cases
    case same
    with a show ?thesis by (simp add: get_product_by_id_def)
  next
    case upd
    let ?g = "\<lambda>x. if product_id x = pid
                 then x\<lparr>product_quantity := product_quantity product + quantity\<rparr> else x"
    have "find (\<lambda>p. product_id p = i) (map ?g (products db))
            = map_option ?g (find (\<lambda>p. product_id p = i) (products db))"
      by (rule find_map_row) simp
    with upd(2) a have b: "get_product_by_id ?db' i = Some (?g a)"
      by (simp add: get_product_by_id_def update_row_def)
    have "product_quantity a \<le> product_quantity (?g a)"
    proof (cases "product_id a = pid")
      case True
      with get_product_by_id_id [OF a] have "i = pid" by simp
      with a upd(1) have "a = product" by simp
      with q show ?thesis by simp
    next
      case False
      then show ?thesis by simp
    qed
    with b show ?thesis by blast
  qed
qed

lemma handle_add_supply_state:
  "snd (handle_add_supply fail now db supplier_text current_data quantity cost) = db
   \<or> (0 < quantity \<and> (\<exists>pid. current_data = Some pid
        \<and> snd (handle_add_supply fail now db supplier_text current_data quantity cost)
          = snd (add_supply fail now db (strip supplier_text) pid quantity cost)))"
  by (auto simp: handle_add_supply_def Let_def split: option.splits prod.splits outcome.splits)

subsection \<open>The best-seller query\<close>

lemma order_by_desc_sorted: "sorted_wrt (\<lambda>a b. snd b \<le> snd a) (order_by_desc rows)"
proof -
  have "sorted (map (\<lambda>r. - snd r) (order_by_desc rows))"
    by (simp add: order_by_desc_def)
  then show ?thesis by (simp add: sorted_map)
qed

lemma order_by_desc_mset: "mset (order_by_desc rows) = mset rows"
  by (simp add: order_by_desc_def)

lemma joined_groups_row:
  "(p, n) \<in> set (joined_groups db) \<Longrightarrow>
     p \<in> set (products db) \<and> n = total_sold db p
     \<and> (\<exists>s \<in> set (sales db). sale_product_id s = product_id p)"
  by (auto simp: joined_groups_def filter_empty_conv)

lemma best_selling_rows:
  "get_best_selling_products scan db limit =
     (if limit < 0 then order_by_desc (scan (joined_groups db))
      else take (nat limit) (order_by_desc (scan (joined_groups db))))"
  by (simp add: get_best_selling_products_def)

lemma best_selling_subset:
  assumes "mset (scan (joined_groups db)) = mset (joined_groups db)"
  shows "set (get_best_selling_products scan db limit) \<subseteq> set (joined_groups db)"
proof -
  have "set (order_by_desc (scan (joined_groups db))) = set (joined_groups db)"
    using assms order_by_desc_mset [of "scan (joined_groups db)"] by (metis set_mset_mset)
  then show ?thesis
    using set_take_subset [of "nat limit" "order_by_desc (scan (joined_groups db))"]
    by (simp add: best_selling_rows)
qed

lemma joined_groups_market: "joined_groups market = [(widget, 1), (gadget, 1)]"
  by (simp add: joined_groups_def total_sold_def market_def widget_def gadget_def sale1_def
      sale2_def)

lemma joined_groups_bazaar: "joined_groups bazaar = [(widget, 1), (gadget, 6)]"
  by (simp add: joined_groups_def total_sold_def bazaar_def widget_def gadget_def sale1_def
      sale2_def sale3_def)

lemma joined_groups_kiosk: "joined_groups kiosk = [(widget, 1)]"
  by (simp add: joined_groups_def total_sold_def kiosk_def widget_def gadget_def sale1_def)

section \<open>Stock is never negative\<close>

text \<open>
  C1, as the code has it. If every product's quantity is at least 0 before the call,
  then it is so afterwards: for \<^verbatim>\<open>record_sale\<close> with any arguments; for
  \<^verbatim>\<open>add_supply\<close> when the supplied quantity is at least 0; for
  \<^verbatim>\<open>update_product_quantity\<close> when the product's quantity plus the change is at
  least 0; for \<^verbatim>\<open>update_product\<close> when the quantity argument is \<^verbatim>\<open>None\<close> or
  at least 0. The database layer checks none of these arguments itself.
\<close>

theorem stock_never_negative:
  assumes inv: "\<forall>p \<in> set (products db). 0 \<le> product_quantity p"
  shows "(\<forall>p \<in> set (products (snd (record_sale fail now db pid quantity cid))).
            0 \<le> product_quantity p)
     \<and> (0 \<le> supplied \<longrightarrow>
          (\<forall>p \<in> set (products (snd (add_supply fail now db supplier pid supplied cost))).
             0 \<le> product_quantity p))
     \<and> ((\<forall>product. get_product_by_id db pid = Some product
                      \<longrightarrow> 0 \<le> product_quantity product + quantity_change) \<longrightarrow>
          (\<forall>p \<in> set (products (snd (update_product_quantity fail db pid quantity_change))).
             0 \<le> product_quantity p))
     \<and> ((\<forall>v. new_quantity = Some v \<longrightarrow> 0 \<le> v) \<longrightarrow>
          (\<forall>p \<in> set (products (snd (update_product fail db pid name category price
                                        new_quantity min_stock barcode description))).
             0 \<le> product_quantity p))"
proof (intro conjI impI)
  show "\<forall>p \<in> set (products (snd (record_sale fail now db pid quantity cid))).
          0 \<le> product_quantity p"
    using record_sale_products [of fail now db pid quantity cid] inv
    by (auto simp: set_update_row)
next
  assume "0 \<le> supplied"
  then show "\<forall>p \<in> set (products (snd (add_supply fail now db supplier pid supplied cost))).
          0 \<le> product_quantity p"
  proof -
    have "0 \<le> product_quantity product + supplied"
      if "get_product_by_id db pid = Some product" for product
      using that inv \<open>0 \<le> supplied\<close> get_product_by_id_in [of db pid product] by fastforce
    then show ?thesis
      using add_supply_products [of fail now db supplier pid supplied cost] inv
      by (auto simp: set_update_row)
  qed
next
  assume "\<forall>product. get_product_by_id db pid = Some product
            \<longrightarrow> 0 \<le> product_quantity product + quantity_change"
  then show "\<forall>p \<in> set (products (snd (update_product_quantity fail db pid quantity_change))).
          0 \<le> product_quantity p"
    using update_product_quantity_products [of fail db pid quantity_change] inv
    by (auto simp: set_update_row)
next
  assume "\<forall>v. new_quantity = Some v \<longrightarrow> 0 \<le> v"
  then show "\<forall>p \<in> set (products (snd (update_product fail db pid name category price
                                        new_quantity min_stock barcode description))).
          0 \<le> product_quantity p"
    using update_product_products [of fail db pid name category price new_quantity
        min_stock barcode description] inv
    by (auto simp: set_update_row assign_fields_quantity split: option.splits)
qed

theorem stock_never_negative_witness:
  "list_all (\<lambda>p. 0 \<le> product_quantity p) (products shop)
   \<and> list_all (\<lambda>p. 0 \<le> product_quantity p) (products (snd (record_sale None 0 shop 1 3 None)))
   \<and> (0::int) \<le> 20
   \<and> list_all (\<lambda>p. 0 \<le> product_quantity p)
        (products (snd (add_supply None 0 shop ''Acme'' 1 20 50)))
   \<and> get_product_by_id shop 1 = Some widget \<and> 0 \<le> product_quantity widget + (- 2)
   \<and> list_all (\<lambda>p. 0 \<le> product_quantity p)
        (products (snd (update_product_quantity None shop 1 (- 2))))
   \<and> list_all (\<lambda>p. 0 \<le> product_quantity p)
        (products (snd (update_product None shop 1 None None None (Some 7) None None None)))"
proof -
  have inv: "\<forall>p \<in> set (products shop). 0 \<le> product_quantity p"
    by (simp add: shop_def widget_def)
  have g: "get_product_by_id shop 1 = Some widget"
    by (simp add: get_product_by_id_def shop_def widget_def)
  have q: "0 \<le> product_quantity widget + (- 2)"
    by (simp add: widget_def)
  from stock_never_negative [OF inv, where fail = None and now = 0 and pid = 1
      and quantity = 3 and supplied = 20 and cid = None and supplier = "''Acme''" and cost = 50
      and quantity_change = "- 2" and new_quantity = "Some 7" and name = None
      and category = None and price = None and min_stock = None and barcode = None
      and description = None] g q inv
  show ?thesis
    by (simp add: list_all_iff)
qed

text \<open>
  Without those conditions the quantity goes below 0: a change of \<open>- 10\<close>, a supply
  of \<open>- 10\<close> and an update to \<open>- 1\<close> on a product with 5 in stock.
\<close>

theorem stock_never_negative_counterexample:
  "map product_quantity (products shop) = [5]
   \<and> map product_quantity (products (snd (update_product_quantity None shop 1 (- 10)))) = [- 5]
   \<and> map product_quantity (products (snd (add_supply None 0 shop ''Acme'' 1 (- 10) 50))) = [- 5]
   \<and> map product_quantity
        (products (snd (update_product None shop 1 None None None (Some (- 1)) None None None)))
       = [- 1]"
  by (simp add: shop_def widget_def update_product_quantity_def add_supply_def
      update_product_def get_product_by_id_def update_row_def assign_fields_def Let_def)

section \<open>A successful sale\<close>

text \<open>
  C2, as the code has it. When the product exists, its stock covers the requested
  quantity and the storage raises nowhere, \<^verbatim>\<open>record_sale\<close> returns the sale it
  created and appended to the sale table; the product's quantity afterwards is its
  quantity before minus the quantity sold; the sale carries the product's price. Its
  total is price \<open>\<times>\<close> quantity when the lookup finds no customer or the customer's
  discount is not above 0, and price \<open>\<times>\<close> quantity \<open>\<times>\<close> (1 - discount / 100) when the
  discount is above 0, every operation being the float operation, rounded to binary64.
\<close>

theorem record_sale_success:
  assumes found: "get_product_by_id db pid = Some product"
    and stock: "quantity \<le> product_quantity product"
    and storage: "fail = None"
  shows "\<exists>sale db'. record_sale fail now db pid quantity cid = (Returned (Some sale), db')
     \<and> get_product_by_id db' pid
         = Some (product\<lparr>product_quantity := product_quantity product - quantity\<rparr>)
     \<and> sales db' = sales db @ [sale]
     \<and> sale_price sale = product_price product
     \<and> sale_quantity sale = quantity
     \<and> sale_total sale
         = (case lookup_customer db cid of
              None \<Rightarrow> fmul (product_price product) (float_of_int quantity)
            | Some c \<Rightarrow>
                if 0 < customer_discount c
                then fmul (fmul (product_price product) (float_of_int quantity))
                       (fsub 1 (fdiv (customer_discount c) 100))
                else fmul (product_price product) (float_of_int quantity))"
proof -
  note upd = get_product_after_update [OF found, where v = "product_quantity product - quantity"]
  from found stock storage show ?thesis
    using upd
    by (cases "lookup_customer db cid")
      (simp_all add: record_sale_def sale_total_for_def Let_def get_product_by_id_def)
qed

theorem record_sale_success_witness:
  "get_product_by_id market 1 = Some widget \<and> 2 \<le> product_quantity widget
   \<and> lookup_customer market (Some 1) = Some alice
   \<and> (\<exists>sale db'. record_sale None 7 market 1 2 (Some 1) = (Returned (Some sale), db')
         \<and> get_product_by_id db' 1 = Some (widget\<lparr>product_quantity := 3\<rparr>)
         \<and> sale_total sale = 18)"
proof -
  have a: "get_product_by_id market 1 = Some widget"
    by (simp add: get_product_by_id_def market_def widget_def)
  have b: "2 \<le> product_quantity widget"
    by (simp add: widget_def)
  have c: "lookup_customer market (Some 1) = Some alice"
    by (simp add: lookup_customer_def get_customer_by_id_def market_def alice_def)
  have e: "product_price widget = 10" "product_quantity widget = 5" "customer_discount alice = 10"
    by (simp_all add: widget_def alice_def)
  from record_sale_success [OF a b refl, where now = 7 and cid = "Some 1"]
  obtain sale db' where "record_sale None 7 market 1 2 (Some 1) = (Returned (Some sale), db')"
    "get_product_by_id db' 1 = Some (widget\<lparr>product_quantity := product_quantity widget - 2\<rparr>)"
    "sale_total sale
         = (case lookup_customer market (Some 1) of
              None \<Rightarrow> fmul (product_price widget) (float_of_int 2)
            | Some c \<Rightarrow>
                if 0 < customer_discount c
                then fmul (fmul (product_price widget) (float_of_int 2))
                       (fsub 1 (fdiv (customer_discount c) 100))
                else fmul (product_price widget) (float_of_int 2))"
    by blast
  then have "record_sale None 7 market 1 2 (Some 1) = (Returned (Some sale), db')
         \<and> get_product_by_id db' 1 = Some (widget\<lparr>product_quantity := 3\<rparr>)
         \<and> sale_total sale = 18"
    by (simp add: c e float_10_times_2 float_discount_10)
  then have "\<exists>sale db'. record_sale None 7 market 1 2 (Some 1) = (Returned (Some sale), db')
         \<and> get_product_by_id db' 1 = Some (widget\<lparr>product_quantity := 3\<rparr>)
         \<and> sale_total sale = 18"
    by blast
  with a b c show ?thesis by simp
qed

text \<open>
  The total is not price \<open>\<times>\<close> quantity \<open>\<times>\<close> (1 - discount / 100) in general. For a
  customer with the discount \<open>- 10\<close> the guard \<^verbatim>\<open>customer.discount > 0\<close> leaves
  the total of two widgets at 20, where the formula gives 22, exactly and in floats.
  For a customer with the discount 7 the total of one widget is the float
  9.299999999999999, where the exact value of the formula is 93 / 10.
\<close>

theorem record_sale_success_counterexample:
  "lookup_customer boutique (Some 2) = Some bob
   \<and> map sale_total (sales (snd (record_sale None 0 boutique 1 2 (Some 2)))) = [20]
   \<and> product_price widget * of_int 2 * (1 - customer_discount bob / 100) = 22
   \<and> fmul (fmul (product_price widget) (float_of_int 2))
        (fsub 1 (fdiv (customer_discount bob) 100)) = 22
   \<and> lookup_customer boutique (Some 3) = Some carol
   \<and> map sale_total (sales (snd (record_sale None 0 boutique 1 1 (Some 3))))
       = [5235434566818201 / 562949953421312]
   \<and> product_price widget * of_int 1 * (1 - customer_discount carol / 100) = 93 / 10"
  by (simp add: record_sale_def get_product_by_id_def get_customer_by_id_def lookup_customer_def
      sale_total_for_def update_row_def new_id_def boutique_def widget_def bob_def carol_def
      Let_def float_10_times_1 float_10_times_2 float_discount_minus_10 float_discount_7)

section \<open>Selling more than the stock\<close>

text \<open>
  C3, as the code has it. When the requested quantity strictly exceeds the stock of
  the product, \<^verbatim>\<open>record_sale\<close> fails by returning \<^verbatim>\<open>None\<close> (or by the storage's
  exception, when the product lookup itself raises), and the store, hence the
  product's quantity and the sale table, is exactly as before the call. \<^verbatim>\<open>None\<close>
  names no kind of error: a call for a product that does not exist, with the same
  quantity and customer, has the same result.
\<close>

theorem record_sale_insufficient_stock:
  assumes "get_product_by_id db pid = Some product"
    and "product_quantity product < quantity"
  shows "snd (record_sale fail now db pid quantity customer_id_arg) = db
     \<and> fst (record_sale fail now db pid quantity customer_id_arg)
         = (if fail = Some 0 then Raised else Returned None)
     \<and> (get_product_by_id db absent = None \<longrightarrow>
          record_sale fail now db absent quantity customer_id_arg
            = record_sale fail now db pid quantity customer_id_arg)"
  using assms by (simp add: record_sale_def)

theorem record_sale_insufficient_stock_witness:
  "get_product_by_id shop 1 = Some widget \<and> product_quantity widget < 10
   \<and> get_product_by_id shop 99 = None
   \<and> record_sale None 0 shop 1 10 None = (Returned None, shop)
   \<and> record_sale None 0 shop 99 10 None = record_sale None 0 shop 1 10 None"
proof -
  have a: "get_product_by_id shop 1 = Some widget"
    by (simp add: get_product_by_id_def shop_def widget_def)
  have b: "product_quantity widget < 10"
    by (simp add: widget_def)
  have c: "get_product_by_id shop 99 = None"
    by (simp add: get_product_by_id_def shop_def widget_def)
  note t = record_sale_insufficient_stock [OF a b, where fail = None and now = 0
      and customer_id_arg = None and absent = 99]
  from t have "record_sale None 0 shop 1 10 None = (Returned None, shop)"
    by (simp add: prod_eq_iff)
  moreover from t c
  have "record_sale None 0 shop 99 10 None = record_sale None 0 shop 1 10 None"
    by simp
  ultimately show ?thesis using a b c by simp
qed

text \<open>
  Ten widgets asked of a stock of five, and ten of a product 99 that does not exist:
  both calls return \<^verbatim>\<open>None\<close>, and nothing in the result tells the short stock from
  the missing product.
\<close>

theorem record_sale_insufficient_stock_counterexample:
  "get_product_by_id shop 1 = Some widget \<and> product_quantity widget = 5
   \<and> fst (record_sale None 0 shop 1 10 None) = Returned None
   \<and> get_product_by_id shop 99 = None
   \<and> fst (record_sale None 0 shop 99 10 None) = Returned None"
  by (simp add: record_sale_def get_product_by_id_def shop_def widget_def)

section \<open>A sale for an unknown customer\<close>

text \<open>
  C4 asks that a sale with a customer id that is in no row of the customer table fails
  and changes nothing. The lookup of the customer returns \<^verbatim>\<open>None\<close>, and the method
  goes on as for a sale without customer: on the example store, with no customer at
  all, a sale of 3 widgets for customer 7 is returned and stored, with the customer id
  7 in it and no discount, and the stock goes from 5 to 2.
\<close>

theorem record_sale_unknown_customer:
  "get_customer_by_id shop 7 = None
   \<and> record_sale None 0 shop 1 3 (Some 7)
     = (Returned (Some \<lparr>sale_id = 1, sale_product_id = 1, sale_customer_id = Some 7,
                         sale_quantity = 3, sale_price = 10, sale_total = 30, sale_date = 0\<rparr>),
        shop\<lparr>products := [widget\<lparr>product_quantity := 2\<rparr>],
             sales := [\<lparr>sale_id = 1, sale_product_id = 1, sale_customer_id = Some 7,
                         sale_quantity = 3, sale_price = 10, sale_total = 30, sale_date = 0\<rparr>]\<rparr>)"
  by (simp add: record_sale_def get_product_by_id_def get_customer_by_id_def lookup_customer_def
      sale_total_for_def update_row_def new_id_def shop_def widget_def Let_def
      float_10_times_3)

section \<open>A supply for an unknown product\<close>

text \<open>
  C5 asks that a supply for a product id that is in no row of the product table fails
  and stores nothing. The guard \<^verbatim>\<open>if product:\<close> skips only the change of the
  quantity: on the example store, which has no product 99, the supply for product 99
  is returned and stored.
\<close>

theorem add_supply_unknown_product:
  "get_product_by_id shop 99 = None
   \<and> add_supply None 0 shop ''Acme'' 99 20 50
     = (Returned \<lparr>supply_id = 1, supply_supplier = ''Acme'', supply_product_id = 99,
                   supply_quantity = 20, supply_cost = 50, supply_date = 0\<rparr>,
        shop\<lparr>supplies := [\<lparr>supply_id = 1, supply_supplier = ''Acme'', supply_product_id = 99,
                   supply_quantity = 20, supply_cost = 50, supply_date = 0\<rparr>]\<rparr>)"
  by (simp add: add_supply_def get_product_by_id_def new_id_def shop_def widget_def Let_def)

section \<open>Supplies of a non-positive quantity\<close>

text \<open>
  C6, as the code has it. The handler of the supply form rejects a quantity of 0 or
  less with a message and leaves the store as it was, and no call of the handler
  lowers the stock of any product. \<^verbatim>\<open>add_supply\<close> of the database layer checks
  nothing: on an existing product, when the storage raises nowhere, the quantity
  afterwards is the quantity before plus the supplied quantity, whatever its sign.
\<close>

theorem supply_quantity_validation:
  "(quantity \<le> 0 \<longrightarrow>
      snd (handle_add_supply fail now db supplier_text current_data quantity cost) = db
      \<and> fst (handle_add_supply fail now db supplier_text current_data quantity cost)
          \<in> {Enter_supplier, Select_product, Quantity_must_be_positive})
   \<and> (\<forall>i a. get_product_by_id db i = Some a \<longrightarrow>
         (\<exists>b. get_product_by_id
                (snd (handle_add_supply fail now db supplier_text current_data quantity cost)) i
                = Some b
              \<and> product_quantity a \<le> product_quantity b))
   \<and> (get_product_by_id db pid = Some product \<and> fail = None \<longrightarrow>
         get_product_by_id (snd (add_supply fail now db supplier pid supplied cost)) pid
           = Some (product\<lparr>product_quantity := product_quantity product + supplied\<rparr>))"
proof (intro conjI impI allI)
  assume "quantity \<le> 0"
  then show "snd (handle_add_supply fail now db supplier_text current_data quantity cost) = db"
    by (simp add: handle_add_supply_def Let_def split: option.splits)
next
  assume "quantity \<le> 0"
  then show "fst (handle_add_supply fail now db supplier_text current_data quantity cost)
          \<in> {Enter_supplier, Select_product, Quantity_must_be_positive}"
    by (simp add: handle_add_supply_def Let_def split: option.splits)
next
  fix i a
  assume a: "get_product_by_id db i = Some a"
  from handle_add_supply_state [of fail now db supplier_text current_data quantity cost]
  show "\<exists>b. get_product_by_id
                (snd (handle_add_supply fail now db supplier_text current_data quantity cost)) i
                = Some b
              \<and> product_quantity a \<le> product_quantity b"
  proof
    assume "snd (handle_add_supply fail now db supplier_text current_data quantity cost) = db"
    with a show ?thesis by simp
  next
    assume "0 < quantity \<and> (\<exists>pid. current_data = Some pid
        \<and> snd (handle_add_supply fail now db supplier_text current_data quantity cost)
          = snd (add_supply fail now db (strip supplier_text) pid quantity cost))"
    then obtain pid' where "0 \<le> quantity"
      "snd (handle_add_supply fail now db supplier_text current_data quantity cost)
          = snd (add_supply fail now db (strip supplier_text) pid' quantity cost)"
      by auto
    with add_supply_stock_mono [OF \<open>0 \<le> quantity\<close> a] show ?thesis by simp
  qed
next
  assume "get_product_by_id db pid = Some product \<and> fail = None"
  then have found: "get_product_by_id db pid = Some product" and "fail = None" by simp_all
  from get_product_after_update [OF found, where v = "product_quantity product + supplied"]
    found \<open>fail = None\<close>
  show "get_product_by_id (snd (add_supply fail now db supplier pid supplied cost)) pid
           = Some (product\<lparr>product_quantity := product_quantity product + supplied\<rparr>)"
    by (simp add: add_supply_def Let_def get_product_by_id_def)
qed

theorem supply_quantity_validation_witness:
  "(0::int) \<le> 0
   \<and> handle_add_supply None 0 shop ''Acme'' (Some 1) 0 50 = (Quantity_must_be_positive, shop)
   \<and> get_product_by_id shop 1 = Some widget
   \<and> (\<exists>b. get_product_by_id (snd (handle_add_supply None 0 shop ''Acme'' (Some 1) 0 50)) 1 = Some b
          \<and> product_quantity widget \<le> product_quantity b)
   \<and> get_product_by_id (snd (add_supply None 0 shop ''Acme'' 1 20 50)) 1
       = Some (widget\<lparr>product_quantity := 25\<rparr>)"
proof -
  have g: "get_product_by_id shop 1 = Some widget"
    by (simp add: get_product_by_id_def shop_def widget_def)
  have s: "strip ''Acme'' = ''Acme''"
    by (simp add: strip_def isspace_def)
  have h: "handle_add_supply None 0 shop ''Acme'' (Some 1) 0 50 = (Quantity_must_be_positive, shop)"
    by (simp add: handle_add_supply_def s)
  have w: "product_quantity widget = 5" by (simp add: widget_def)
  note t = supply_quantity_validation [where quantity = 0 and fail = None and now = 0
      and db = shop and supplier_text = "''Acme''" and current_data = "Some 1" and cost = 50
      and pid = 1 and product = widget and supplier = "''Acme''" and supplied = 20]
  from t g have "\<exists>b. get_product_by_id (snd (handle_add_supply None 0 shop ''Acme'' (Some 1) 0 50)) 1 = Some b
          \<and> product_quantity widget \<le> product_quantity b"
    by blast
  moreover from t g have "get_product_by_id (snd (add_supply None 0 shop ''Acme'' 1 20 50)) 1
       = Some (widget\<lparr>product_quantity := 25\<rparr>)"
    by (simp add: w)
  ultimately show ?thesis using g h by simp
qed

text \<open>
  Called directly with the quantity \<open>- 3\<close>, \<^verbatim>\<open>add_supply\<close> is not rejected: it
  stores the supply and lowers the stock from 5 to 2.
\<close>

theorem supply_quantity_validation_counterexample:
  "get_product_by_id shop 1 = Some widget \<and> product_quantity widget = 5
   \<and> add_supply None 0 shop ''Acme'' 1 (- 3) 50
     = (Returned \<lparr>supply_id = 1, supply_supplier = ''Acme'', supply_product_id = 1,
                   supply_quantity = - 3, supply_cost = 50, supply_date = 0\<rparr>,
        shop\<lparr>products := [widget\<lparr>product_quantity := 2\<rparr>],
             supplies := [\<lparr>supply_id = 1, supply_supplier = ''Acme'', supply_product_id = 1,
                   supply_quantity = - 3, supply_cost = 50, supply_date = 0\<rparr>]\<rparr>)"
  by (simp add: add_supply_def get_product_by_id_def update_row_def new_id_def shop_def
      widget_def Let_def)

section \<open>Deleting a product\<close>

text \<open>
  C7. When the product is absent, \<^verbatim>\<open>delete_product\<close> returns \<^verbatim>\<open>False\<close> and the
  store is unchanged. When it exists and no storage access raises, the call returns
  \<^verbatim>\<open>True\<close>, and the store has lost the product and exactly the sales, supplies and
  inventory checks whose product id is the target. When a storage access raises, at
  whichever step, the exception is raised again and the store is as before the call:
  none of the deletions is kept.
\<close>

theorem delete_product_cascade:
  "(get_product_by_id db pid = None \<longrightarrow>
      delete_product fail db pid = (if fail = Some 0 then Raised else Returned False, db))
   \<and> (get_product_by_id db pid \<noteq> None \<longrightarrow>
      delete_product fail db pid =
        (if fail \<in> {Some 0, Some 1, Some 2, Some 3, Some 4} then (Raised, db)
         else (Returned True,
               db\<lparr>products := filter (\<lambda>p. product_id p \<noteq> pid) (products db),
                  sales := filter (\<lambda>s. sale_product_id s \<noteq> pid) (sales db),
                  supplies := filter (\<lambda>s. supply_product_id s \<noteq> pid) (supplies db),
                  inventory_checks :=
                    filter (\<lambda>c. inventory_check_product_id c \<noteq> pid) (inventory_checks db)\<rparr>)))"
  by (auto simp: delete_product_def Let_def)

theorem delete_product_cascade_witness:
  "get_product_by_id market 7 = None
   \<and> delete_product None market 7 = (Returned False, market)
   \<and> get_product_by_id market 1 \<noteq> None
   \<and> delete_product None market 1
       = (Returned True, market\<lparr>products := [gadget], sales := [sale2], supplies := []\<rparr>)
   \<and> delete_product (Some 4) market 1 = (Raised, market)"
proof -
  have a: "get_product_by_id market 7 = None"
    by (simp add: get_product_by_id_def market_def widget_def gadget_def)
  have b: "get_product_by_id market 1 \<noteq> None"
    by (simp add: get_product_by_id_def market_def widget_def gadget_def)
  have m: "filter (\<lambda>p. product_id p \<noteq> 1) (products market) = [gadget]"
    "filter (\<lambda>s. sale_product_id s \<noteq> 1) (sales market) = [sale2]"
    "filter (\<lambda>s. supply_product_id s \<noteq> 1) (supplies market) = []"
    "filter (\<lambda>c. inventory_check_product_id c \<noteq> 1) (inventory_checks market) = []"
    by (simp_all add: market_def widget_def gadget_def sale1_def sale2_def supply1_def)
  have e: "market\<lparr>products := [gadget], sales := [sale2], supplies := [], inventory_checks := []\<rparr>
      = market\<lparr>products := [gadget], sales := [sale2], supplies := []\<rparr>"
    by (simp add: market_def)
  from delete_product_cascade [of market 7 None] a
  have 1: "delete_product None market 7 = (Returned False, market)" by simp
  from delete_product_cascade [of market 1 None] b
  have 2: "delete_product None market 1
       = (Returned True, market\<lparr>products := [gadget], sales := [sale2], supplies := []\<rparr>)"
    by (simp add: m e)
  from delete_product_cascade [of market 1 "Some 4"] b
  have 3: "delete_product (Some 4) market 1 = (Raised, market)" by simp
  from a b 1 2 3 show ?thesis by simp
qed

section \<open>Products low in stock\<close>

text \<open>
  C8. \<^verbatim>\<open>get_low_stock_products\<close> returns exactly the products whose quantity is
  strictly below their minimal stock; a product with quantity 0 and a positive minimal
  stock is among them.
\<close>

theorem low_stock_exact:
  "set (get_low_stock_products db)
     = {p \<in> set (products db). product_quantity p < product_min_stock p}
   \<and> (p \<in> set (products db) \<and> product_quantity p = 0 \<and> 0 < product_min_stock p
        \<longrightarrow> p \<in> set (get_low_stock_products db))"
  by (auto simp: get_low_stock_products_def)

theorem low_stock_exact_witness:
  "gadget \<in> set (products market) \<and> product_quantity gadget = 0 \<and> 0 < product_min_stock gadget
   \<and> gadget \<in> set (get_low_stock_products market)
   \<and> get_low_stock_products market = [gadget]"
proof -
  have a: "gadget \<in> set (products market)" by (simp add: market_def)
  have b: "product_quantity gadget = 0" "0 < product_min_stock gadget"
    by (simp_all add: gadget_def)
  from low_stock_exact [of market gadget] a b
  have "gadget \<in> set (get_low_stock_products market)" by blast
  moreover have "get_low_stock_products market = [gadget]"
    by (simp add: get_low_stock_products_def market_def widget_def gadget_def)
  ultimately show ?thesis using a b by simp
qed

section \<open>Best-selling products\<close>

text \<open>
  C9, as the code has it. Whatever the order in which the storage engine produces the
  groups, the rows of \<^verbatim>\<open>get_best_selling_products(limit)\<close> are in descending order
  of the sum of the quantities sold, and they are groups of the join, each at most as
  often as the join has it: a product of the table that has sales, with its sum. When
  the limit is 0 or more there are at most \<open>limit\<close> rows (all groups when there are
  fewer); when it is negative every group is returned. No group left out has a larger
  sum than a row returned. Nothing orders rows with equal sums.
\<close>

theorem best_selling_order:
  assumes perm: "mset (scan (joined_groups db)) = mset (joined_groups db)"
  shows "sorted_wrt (\<lambda>a b. snd b \<le> snd a) (get_best_selling_products scan db limit)
     \<and> mset (get_best_selling_products scan db limit) \<subseteq># mset (joined_groups db)
     \<and> (0 \<le> limit \<longrightarrow>
          int (length (get_best_selling_products scan db limit)) \<le> limit
          \<and> length (get_best_selling_products scan db limit)
              = min (nat limit) (length (joined_groups db)))
     \<and> (limit < 0 \<longrightarrow>
          mset (get_best_selling_products scan db limit) = mset (joined_groups db))
     \<and> (\<forall>r \<in> set (get_best_selling_products scan db limit).
           fst r \<in> set (products db) \<and> snd r = total_sold db (fst r))
     \<and> (\<forall>r \<in> set (get_best_selling_products scan db limit).
           \<forall>g \<in># mset (joined_groups db) - mset (get_best_selling_products scan db limit).
             snd g \<le> snd r)"
proof -
  let ?full = "order_by_desc (scan (joined_groups db))"
  let ?rows = "get_best_selling_products scan db limit"
  have full_mset: "mset ?full = mset (joined_groups db)"
    using perm by (simp add: order_by_desc_mset)
  have sorted_full: "sorted_wrt (\<lambda>a b. snd b \<le> snd a) ?full"
    by (rule order_by_desc_sorted)
  have len_full: "length ?full = length (joined_groups db)"
    using full_mset by (metis size_mset)
  have 4: "\<forall>r \<in> set ?rows. fst r \<in> set (products db) \<and> snd r = total_sold db (fst r)"
  proof
    fix r assume "r \<in> set ?rows"
    with best_selling_subset [where scan = scan and db = db and limit = limit, OF perm]
    have "(fst r, snd r) \<in> set (joined_groups db)"
      by auto
    from joined_groups_row [OF this]
    show "fst r \<in> set (products db) \<and> snd r = total_sold db (fst r)"
      by simp
  qed
  show ?thesis
  proof (cases "limit < 0")
    case True
    then have rows: "?rows = ?full" by (simp add: best_selling_rows)
    have "sorted_wrt (\<lambda>a b. snd b \<le> snd a) ?rows"
      unfolding rows by (rule sorted_full)
    moreover have "mset ?rows = mset (joined_groups db)"
      unfolding rows by (rule full_mset)
    ultimately show ?thesis using True 4 by simp
  next
    case False
    then have rows: "?rows = take (nat limit) ?full" by (simp add: best_selling_rows)
    have 1: "sorted_wrt (\<lambda>a b. snd b \<le> snd a) ?rows"
      unfolding rows using sorted_full by (rule sorted_wrt_take)
    have split: "mset (joined_groups db)
        = mset (take (nat limit) ?full) + mset (drop (nat limit) ?full)"
      using full_mset by (metis append_take_drop_id mset_append)
    then have 2: "mset ?rows \<subseteq># mset (joined_groups db)"
      unfolding rows by simp
    have 3: "length ?rows = min (nat limit) (length (joined_groups db))"
      unfolding rows using len_full by simp
    with False have bound: "int (length ?rows) \<le> limit" by simp
    from split
    have rest: "mset (joined_groups db) - mset (take (nat limit) ?full)
        = mset (drop (nat limit) ?full)"
      by simp
    have "sorted_wrt (\<lambda>a b. snd b \<le> snd a)
        (take (nat limit) ?full @ drop (nat limit) ?full)"
      using sorted_full by simp
    then have "\<forall>r \<in> set (take (nat limit) ?full). \<forall>g \<in> set (drop (nat limit) ?full).
        snd g \<le> snd r"
      unfolding sorted_wrt_append by blast
    then have 5: "\<forall>r \<in> set ?rows.
        \<forall>g \<in># mset (joined_groups db) - mset ?rows. snd g \<le> snd r"
      unfolding rows rest by simp
    from False 1 2 3 bound 4 5 show ?thesis by simp
  qed
qed

theorem best_selling_order_witness:
  "mset ((\<lambda>rows. rows) (joined_groups bazaar)) = mset (joined_groups bazaar)
   \<and> (0::int) \<le> 1
   \<and> get_best_selling_products (\<lambda>rows. rows) bazaar 1 = [(gadget, 6)]
   \<and> sorted_wrt (\<lambda>a b. snd b \<le> snd a) (get_best_selling_products (\<lambda>rows. rows) bazaar 1)
   \<and> int (length (get_best_selling_products (\<lambda>rows. rows) bazaar 1)) \<le> 1
   \<and> (- 1::int) < 0
   \<and> mset (get_best_selling_products (\<lambda>rows. rows) bazaar (- 1)) = mset (joined_groups bazaar)"
proof -
  have perm: "mset ((\<lambda>rows. rows) (joined_groups bazaar)) = mset (joined_groups bazaar)"
    by simp
  have v: "get_best_selling_products (\<lambda>rows. rows) bazaar 1 = [(gadget, 6)]"
    by (simp add: get_best_selling_products_def order_by_desc_def joined_groups_bazaar)
  from best_selling_order
    [where scan = "\<lambda>rows. rows" and db = bazaar and limit = 1, OF perm]
  have a: "sorted_wrt (\<lambda>a b. snd b \<le> snd a) (get_best_selling_products (\<lambda>rows. rows) bazaar 1)
     \<and> int (length (get_best_selling_products (\<lambda>rows. rows) bazaar 1)) \<le> 1"
    by simp
  from best_selling_order
    [where scan = "\<lambda>rows. rows" and db = bazaar and limit = "- 1", OF perm]
  have b: "mset (get_best_selling_products (\<lambda>rows. rows) bazaar (- 1))
      = mset (joined_groups bazaar)"
    by simp
  from perm v a b show ?thesis by simp
qed

text \<open>
  Two products with one unit sold each: when the engine produces the group of product
  2 first, product 2 comes before product 1 in the result. With the limit \<open>- 1\<close>
  the result has both rows.
\<close>

theorem best_selling_order_counterexample:
  "mset (rev (joined_groups market)) = mset (joined_groups market)
   \<and> map (product_id \<circ> fst) (get_best_selling_products rev market 10) = [2, 1]
   \<and> map snd (get_best_selling_products rev market 10) = [1, 1]
   \<and> length (get_best_selling_products rev market (- 1)) = 2"
  by (simp add: get_best_selling_products_def order_by_desc_def joined_groups_market
      widget_def gadget_def)

text \<open>
  C10. A product that no sale row refers to is in no row of the result of
  \<^verbatim>\<open>get_best_selling_products\<close>, whatever the limit and also when fewer products
  than the limit have sales: the join leaves it out.
\<close>

theorem best_selling_excludes_unsold:
  assumes perm: "mset (scan (joined_groups db)) = mset (joined_groups db)"
    and unsold: "\<forall>s \<in> set (sales db). sale_product_id s \<noteq> product_id p"
  shows "p \<notin> fst ` set (get_best_selling_products scan db limit)"
proof
  assume "p \<in> fst ` set (get_best_selling_products scan db limit)"
  then obtain n where "(p, n) \<in> set (get_best_selling_products scan db limit)" by auto
  with best_selling_subset [where scan = scan and db = db and limit = limit, OF perm]
  have "(p, n) \<in> set (joined_groups db)" by auto
  from joined_groups_row [OF this] unsold show False by blast
qed

theorem best_selling_excludes_unsold_witness:
  "mset ((\<lambda>rows. rows) (joined_groups kiosk)) = mset (joined_groups kiosk)
   \<and> gadget \<in> set (products kiosk)
   \<and> list_all (\<lambda>s. sale_product_id s \<noteq> product_id gadget) (sales kiosk)
   \<and> get_best_selling_products (\<lambda>rows. rows) kiosk 10 = [(widget, 1)]
   \<and> gadget \<notin> fst ` set (get_best_selling_products (\<lambda>rows. rows) kiosk 10)"
proof -
  have perm: "mset ((\<lambda>rows. rows) (joined_groups kiosk)) = mset (joined_groups kiosk)"
    by simp
  have unsold: "\<forall>s \<in> set (sales kiosk). sale_product_id s \<noteq> product_id gadget"
    by (simp add: kiosk_def sale1_def gadget_def)
  have v: "get_best_selling_products (\<lambda>rows. rows) kiosk 10 = [(widget, 1)]"
    by (simp add: get_best_selling_products_def order_by_desc_def joined_groups_kiosk)
  have p: "gadget \<in> set (products kiosk)" by (simp add: kiosk_def)
  from best_selling_excludes_unsold
    [where scan = "\<lambda>rows. rows" and db = kiosk and limit = 10 and p = gadget, OF perm unsold]
  have "gadget \<notin> fst ` set (get_best_selling_products (\<lambda>rows. rows) kiosk 10)" .
  with perm unsold v p show ?thesis by (simp add: list_all_iff)
qed

end
